theory Spec2Isabelle
  imports Main "HOL-Library.Word"
begin

unbundle bit_operations_syntax

section \<open>Bytes, errors and the platform the code runs on\<close>

text \<open>
  A Node \<open>Buffer\<close> is a list of bytes. A JavaScript \<open>Error\<close> is represented by
  its message; an \<open>await\<close> that may throw returns a sum whose left injection is
  the error thrown.
\<close>

type_synonym byte = "8 word"
type_synonym bytes = "byte list"

datatype error = Error string

text \<open>
  The repository calls into collaborators whose code is not part of it: zlib
  (\<open>zlib.gzip\<close>, \<open>zlib.gunzip\<close>, promisified), the base64 codec of \<open>Buffer\<close>
  (\<open>buf.toString('base64')\<close>, \<open>Buffer.from(s, 'base64')\<close>), \<open>Date.parse\<close> /
  \<open>new Date(s)\<close> (\<open>None\<close> is \<open>NaN\<close>, an invalid date), the cast Mongoose applies to a
  string stored under a \<open>Date\<close> path (\<open>None\<close> is a \<open>CastError\<close>) and
  \<open>String.prototype.trim\<close>, which removes the white space and line terminators of
  ECMAScript from both ends of a string. They are parameters of every function below.
\<close>

record platform =
  gzip :: "bytes \<Rightarrow> error + bytes"
  gunzip :: "bytes \<Rightarrow> error + bytes"
  toBase64 :: "bytes \<Rightarrow> string"
  fromBase64 :: "string \<Rightarrow> bytes"
  dateParse :: "string \<Rightarrow> int option"
  castDate :: "string \<Rightarrow> int option"
  trim :: "string \<Rightarrow> string"

section \<open>utils/compression.js\<close>

text \<open>
  \<open>compressBuffer\<close>: awaits \<open>gzip(buffer)\<close>; any error is logged and replaced by
  \<open>new Error('Failed to compress file')\<close>, which is thrown.
\<close>

definition compressBuffer :: "('x) platform_scheme \<Rightarrow> bytes \<Rightarrow> error + bytes" where
  "compressBuffer P buffer =
     (case gzip P buffer of
        Inr compressed \<Rightarrow> Inr compressed
      | Inl e \<Rightarrow> Inl (Error ''Failed to compress file''))"

text \<open>
  \<open>isGzipped\<close>: \<open>buffer[0] === 0x1f && buffer[1] === 0x8b\<close>. Reading a Buffer past its
  end gives \<open>undefined\<close>, which is not strictly equal to a number, so a buffer of fewer
  than two bytes is not gzipped.
\<close>

fun isGzipped :: "bytes \<Rightarrow> bool" where
  "isGzipped (b0 # b1 # rest) = (b0 = 0x1f \<and> b1 = 0x8b)"
| "isGzipped _ = False"

text \<open>
  \<open>decompressBuffer\<close>: returns the buffer as it is when it is not gzipped; otherwise
  awaits \<open>gunzip(buffer)\<close>. The \<open>catch\<close> logs the error and returns the original
  buffer, so no branch of the function throws: the result is always \<open>Inr\<close>.
\<close>

definition decompressBuffer :: "('x) platform_scheme \<Rightarrow> bytes \<Rightarrow> error + bytes" where
  "decompressBuffer P buffer =
     (if \<not> isGzipped buffer then Inr buffer
      else (case gunzip P buffer of
              Inr decompressed \<Rightarrow> Inr decompressed
            | Inl e \<Rightarrow> Inr buffer))"

section \<open>db.js: the Appliance schema and the document store\<close>

text \<open>
  An embedded file (\<open>productImage\<close>, and each entry of \<open>receipts\<close>): the base64 text
  of the stored bytes and the metadata of the upload. A receipt adds the subdocument
  \<open>_id\<close> Mongoose generates, its \<open>name\<close> and \<open>createdAt\<close> (default \<open>Date.now\<close>).
\<close>

record asset =
  data :: string
  contentType :: string
  fileName :: string
  fileSize :: nat

record receipt = asset +
  receipt_id :: nat
  receipt_name :: string
  createdAt :: nat

record appliance =
  appliance_id :: nat
  userId :: nat
  name :: string
  companyName :: "string option"
  modelNumber :: string
  purchaseDate :: int
  productImage :: asset
  receipts :: "receipt list"

text \<open>
  The collection, in insertion order, and the next unused document id. Ids are
  ObjectIds in the source; only their equality matters, so they are numbers here.
\<close>

record store =
  docs :: "appliance list"
  fresh :: nat

text \<open>
  \<open>trim: true\<close> on a String path (\<open>name\<close>, \<open>companyName\<close>, \<open>modelNumber\<close>, a receipt's
  \<open>name\<close>) applies \<open>String.prototype.trim\<close> when the value is set: \<open>trim P\<close> below.

  The validators of the schema. \<open>required: true\<close> on a String path rejects a missing
  value and the empty string; \<open>max\<close> bounds \<open>fileSize\<close> by 5 MB. The paths \<open>userId\<close>,
  \<open>name\<close>, \<open>modelNumber\<close> and \<open>purchaseDate\<close> are declared with \<open>require: true\<close>, which
  is not a schema option, so they carry no validator.
\<close>

definition maxFileSize :: nat where
  "maxFileSize = 5 * 1024 * 1024"

definition valid_asset :: "('x) asset_scheme \<Rightarrow> bool" where
  "valid_asset x =
     (data x \<noteq> [] \<and> contentType x \<noteq> [] \<and> fileName x \<noteq> [] \<and> fileSize x \<le> maxFileSize)"

definition valid_receipt :: "receipt \<Rightarrow> bool" where
  "valid_receipt r = (receipt_name r \<noteq> [] \<and> valid_asset r)"

text \<open>
  Embedding a receipt object \<open>{name, data, contentType, fileName, fileSize}\<close> in a
  document: the name is trimmed, an \<open>_id\<close> is generated and \<open>createdAt\<close> defaults to
  the current time.
\<close>

definition embed_receipt ::
  "('x) platform_scheme \<Rightarrow> nat \<Rightarrow> nat \<Rightarrow> string \<times> asset \<Rightarrow> receipt" where
  "embed_receipt P i now r =
     \<lparr>data = data (snd r), contentType = contentType (snd r), fileName = fileName (snd r),
      fileSize = fileSize (snd r),
      receipt_id = i, receipt_name = trim P (fst r), createdAt = now\<rparr>"

fun embed_receipts ::
  "('x) platform_scheme \<Rightarrow> nat \<Rightarrow> nat \<Rightarrow> (string \<times> asset) list \<Rightarrow> receipt list" where
  "embed_receipts P i now [] = []"
| "embed_receipts P i now (r # rs) = embed_receipt P i now r # embed_receipts P (Suc i) now rs"

text \<open>
  \<open>Appliance.create\<close>: builds the document (string paths trimmed, \<open>companyName\<close>
  defaulting to \<open>null\<close>), validates it and inserts it. A validation failure throws and
  nothing is inserted.
\<close>

definition Appliance_create ::
  "('x) platform_scheme \<Rightarrow> store \<Rightarrow> nat \<Rightarrow> nat \<Rightarrow> string \<Rightarrow> string \<Rightarrow> string option \<Rightarrow> int \<Rightarrow>
   asset \<Rightarrow> (string \<times> asset) list \<Rightarrow> error + appliance \<times> store" where
  "Appliance_create P st now uid nm model company pdate img rs =
     (let doc = \<lparr>appliance_id = fresh st, userId = uid, name = trim P nm,
                 companyName = map_option (trim P) company, modelNumber = trim P model,
                 purchaseDate = pdate, productImage = img,
                 receipts = embed_receipts P (Suc (fresh st)) now rs\<rparr>
      in if valid_asset img \<and> list_all valid_receipt (receipts doc)
         then Inr (doc, \<lparr>docs = docs st @ [doc], fresh = Suc (fresh st) + length rs\<rparr>)
         else Inl (Error ''Appliance validation failed''))"

text \<open>\<open>Appliance.findById(id)\<close> and \<open>Appliance.findOne({_id: id, userId: uid})\<close>.\<close>

definition findById :: "store \<Rightarrow> nat \<Rightarrow> appliance option" where
  "findById st i = find (\<lambda>a. appliance_id a = i) (docs st)"

definition findOne :: "store \<Rightarrow> nat \<Rightarrow> nat \<Rightarrow> appliance option" where
  "findOne st i uid = find (\<lambda>a. appliance_id a = i \<and> userId a = uid) (docs st)"

text \<open>
  Replacing and removing the first document with a given id (the one \<open>findById\<close>
  returns).
\<close>

fun replace_doc :: "nat \<Rightarrow> appliance \<Rightarrow> appliance list \<Rightarrow> appliance list" where
  "replace_doc i d [] = []"
| "replace_doc i d (a # ds) = (if appliance_id a = i then d # ds else a # replace_doc i d ds)"

fun remove_doc :: "nat \<Rightarrow> appliance list \<Rightarrow> appliance list" where
  "remove_doc i [] = []"
| "remove_doc i (a # ds) = (if appliance_id a = i then ds else a # remove_doc i ds)"

text \<open>
  \<open>Appliance.findByIdAndUpdate(id, {name, modelNumber, purchaseDate, companyName},
  {new: true, runValidators: true})\<close>: the four paths are set (strings trimmed) on the
  document with that id and the updated document is returned, or \<open>null\<close> when there is
  none. The paths set have no validator, so \<open>runValidators\<close> rejects nothing.
\<close>

definition findByIdAndUpdate ::
  "('x) platform_scheme \<Rightarrow> store \<Rightarrow> nat \<Rightarrow> string \<Rightarrow> string \<Rightarrow> int \<Rightarrow> string option \<Rightarrow>
   (appliance \<times> store) option" where
  "findByIdAndUpdate P st i nm model pdate company =
     (case findById st i of
        None \<Rightarrow> None
      | Some a \<Rightarrow>
          (let a' = a\<lparr>name := trim P nm, modelNumber := trim P model, purchaseDate := pdate,
                      companyName := map_option (trim P) company\<rparr>
           in Some (a', st\<lparr>docs := replace_doc i a' (docs st)\<rparr>)))"

definition findByIdAndDelete :: "store \<Rightarrow> nat \<Rightarrow> store" where
  "findByIdAndDelete st i = st\<lparr>docs := remove_doc i (docs st)\<rparr>"

text \<open>
  \<open>appliance.receipts.push(receiptData); await appliance.save()\<close>: the new receipt is
  embedded and validated; a validation failure throws and the stored document keeps
  its receipts.
\<close>

definition push_receipt_and_save ::
  "('x) platform_scheme \<Rightarrow> store \<Rightarrow> nat \<Rightarrow> appliance \<Rightarrow> string \<times> asset \<Rightarrow>
   error + appliance \<times> store" where
  "push_receipt_and_save P st now a r =
     (let r' = embed_receipt P (fresh st) now r;
          a' = a\<lparr>receipts := receipts a @ [r']\<rparr>
      in if valid_receipt r'
         then Inr (a', \<lparr>docs = replace_doc (appliance_id a) a' (docs st), fresh = Suc (fresh st)\<rparr>)
         else Inl (Error ''Appliance validation failed''))"

section \<open>HTTP answers\<close>

text \<open>
  What a handler sends: the status (200 when the source calls \<open>res.json\<close> or
  \<open>res.send\<close> without \<open>res.status\<close>), the \<open>message\<close> of the JSON body (empty when the
  body has none) and the rest of the body. The optional \<open>error\<close> text of a 500 answer is
  not represented. Each zod issue is represented by the path of the field it is about.
\<close>

record appliance_view =
  view_id :: nat
  view_name :: string
  view_modelNumber :: string
  view_purchaseDate :: int
  view_companyName :: "string option"
  view_productImage :: asset
  view_receipts :: "receipt list"

record file_part =
  fieldname :: string
  originalname :: string
  mimetype :: string
  buffer :: bytes

datatype payload =
    NoPayload
  | Details string
  | FieldErrors "string list"
  | ApplianceDoc appliance
  | ApplianceView appliance_view
  | UploadedFile file_part
  | RawFile string string bytes

record response =
  status :: nat
  message :: string
  payload :: payload

definition respond :: "nat \<Rightarrow> string \<Rightarrow> payload \<Rightarrow> response" where
  "respond s m p = \<lparr>status = s, message = m, payload = p\<rparr>"

text \<open>
  The outcome of a request: the answer, the store afterwards, and the buffers that were
  handed to \<open>compressBuffer\<close> while the request was served, in call order.
\<close>

record outcome =
  reply :: response
  db :: store
  compressCalls :: "bytes list"

definition finish :: "response \<Rightarrow> store \<Rightarrow> bytes list \<Rightarrow> outcome" where
  "finish r st cs = \<lparr>reply = r, db = st, compressCalls = cs\<rparr>"

text \<open>
  The error-handling middleware of the application (\<open>app.use((err, req, res, next) =>
  ...)\<close>): status 500 with \<open>err.message || 'Internal server error'\<close>. An error a
  middleware passes to \<open>next\<close> is answered on this path; Express's built-in handler
  answers an error without a \<open>status\<close> property with 500 as well.
\<close>

definition errorMiddleware :: "error \<Rightarrow> response" where
  "errorMiddleware err =
     (case err of Error m \<Rightarrow>
        respond 500 (if m = [] then ''Internal server error'' else m) NoPayload)"

section \<open>Uploads: multer as the routers configure it\<close>

text \<open>
  A multipart request carries its file parts in arrival order. Multer, as the library
  is written, takes each part in turn: a part without a file name is no file and is
  dropped; a part under a field that is not expected, or that has used up its
  \<open>maxCount\<close>, fails with \<open>LIMIT_UNEXPECTED_FILE\<close>; then the
  router's \<open>fileFilter\<close> is asked; then memory storage reads the part, and a part of
  more than \<open>limits.fileSize\<close> bytes fails with \<open>LIMIT_FILE_SIZE\<close>. The first failure
  is passed to \<open>next\<close> and the route's handler never runs. A stored file has
  \<open>size = buffer.length\<close>.
\<close>

definition file_size :: "file_part \<Rightarrow> nat" where
  "file_size f = length (buffer f)"

fun multer ::
  "(file_part \<Rightarrow> error option) \<Rightarrow> nat \<Rightarrow> (string \<times> nat) list \<Rightarrow> file_part list \<Rightarrow>
   error + file_part list" where
  "multer flt limit filesLeft [] = Inr []"
| "multer flt limit filesLeft (p # ps) =
     (if originalname p = [] then multer flt limit filesLeft ps
      else
     (case map_of filesLeft (fieldname p) of
        None \<Rightarrow> Inl (Error ''Unexpected field'')
      | Some n \<Rightarrow>
          if n = 0 then Inl (Error ''Unexpected field'')
          else (case flt p of
                  Some err \<Rightarrow> Inl err
                | None \<Rightarrow>
                    if file_size p > limit then Inl (Error ''File too large'')
                    else (case multer flt limit ((fieldname p, n - 1) # filesLeft) ps of
                            Inl err \<Rightarrow> Inl err
                          | Inr fs \<Rightarrow> Inr (p # fs)))))"

text \<open>\<open>req.files[name]\<close>, of which the handlers read element 0; \<open>None\<close> is \<open>undefined\<close>.\<close>

definition files_of :: "file_part list \<Rightarrow> string \<Rightarrow> file_part option" where
  "files_of fs nm = find (\<lambda>f. fieldname f = nm) fs"

subsection \<open>The appliance router's \<open>upload\<close>\<close>

definition allowedTypes :: "string list" where
  "allowedTypes = [''image/jpeg'', ''image/png'', ''application/pdf'']"

definition fileFilter :: "file_part \<Rightarrow> error option" where
  "fileFilter file =
     (if mimetype file \<notin> set allowedTypes
      then Some (Error ''only JPEG, PNG and PDF files are allowed'')
      else None)"

definition fileSizeLimit :: nat where
  "fileSizeLimit = 5 * 1024 * 1024"

definition upload_fields :: "file_part list \<Rightarrow> error + file_part list" where
  "upload_fields parts =
     multer fileFilter fileSizeLimit
       [(''productImage'', 1), (''originalReceipt'', 1), (''insuranceReceipt'', 1)] parts"

definition upload_single :: "file_part list \<Rightarrow> error + file_part list" where
  "upload_single parts = multer fileFilter fileSizeLimit [(''originalReceipt'', 1)] parts"

subsection \<open>The user router's \<open>upload\<close> and \<open>POST /user/upload\<close>\<close>

text \<open>
  The filter matches \<open>file.originalname\<close> against \<open>/\.(jpg|jpeg|png|pdf)$/\<close>: the name
  must end in one of the four extensions. The declared content type is not read.
\<close>

definition ends_with :: "string \<Rightarrow> string \<Rightarrow> bool" where
  "ends_with e s = (length e \<le> length s \<and> drop (length s - length e) s = e)"

definition user_fileFilter :: "file_part \<Rightarrow> error option" where
  "user_fileFilter file =
     (if \<not> list_ex (\<lambda>e. ends_with e (originalname file)) [''.jpg'', ''.jpeg'', ''.png'', ''.pdf'']
      then Some (Error ''only image and PDFs allowed'')
      else None)"

definition user_upload :: "store \<Rightarrow> file_part list \<Rightarrow> outcome" where
  "user_upload st parts =
     (case multer user_fileFilter fileSizeLimit [(''file'', 1)] parts of
        Inl err \<Rightarrow> finish (errorMiddleware err) st []
      | Inr fs \<Rightarrow>
          (case files_of fs ''file'' of
             None \<Rightarrow> finish (respond 400 ''Invalid file type or size.'' NoPayload) st []
           | Some file \<Rightarrow>
               finish (respond 200 ''File uploaded successfully'' (UploadedFile file)) st []))"

section \<open>routes/appliance.js\<close>

subsection \<open>\<open>applianceSchema\<close>\<close>

text \<open>
  A value of a request body: absent, \<open>null\<close>, a string, or anything else (a number, a
  boolean, an array, an object). The schema reads four keys and strips the others.
\<close>

datatype json = JUndefined | JNull | JString string | JOther

record appliance_body =
  body_name :: json
  body_companyName :: json
  body_modelNumber :: json
  body_purchaseDate :: json

record parsed =
  parsed_name :: string
  parsed_companyName :: json
  parsed_modelNumber :: string
  parsed_purchaseDate :: string

text \<open>\<open>zod.string().min(1, ...)\<close>: a string of at least one character.\<close>

definition string_min1 :: "json \<Rightarrow> string option" where
  "string_min1 v = (case v of JString s \<Rightarrow> (if s = [] then None else Some s) | _ \<Rightarrow> None)"

text \<open>\<open>zod.string().nullable().optional()\<close>: a string, \<open>null\<close> or absent.\<close>

definition string_nullable_optional :: "json \<Rightarrow> bool" where
  "string_nullable_optional v = (v \<noteq> JOther)"

text \<open>\<open>zod.string().refine((date) => !isNaN(Date.parse(date)))\<close>.\<close>

definition date_string :: "('x) platform_scheme \<Rightarrow> json \<Rightarrow> string option" where
  "date_string P v =
     (case v of
        JString s \<Rightarrow> (if dateParse P s = None then None else Some s)
      | _ \<Rightarrow> None)"

text \<open>
  \<open>applianceSchema.safeParse\<close>: the parsed data, or the issues of all failing fields
  together, in the order of the schema's keys.
\<close>

definition applianceSchema ::
  "('x) platform_scheme \<Rightarrow> appliance_body \<Rightarrow> string list + parsed" where
  "applianceSchema P b =
     (case (string_min1 (body_name b), string_nullable_optional (body_companyName b),
            string_min1 (body_modelNumber b), date_string P (body_purchaseDate b)) of
        (Some n, True, Some m, Some d) \<Rightarrow>
          Inr \<lparr>parsed_name = n, parsed_companyName = body_companyName b,
               parsed_modelNumber = m, parsed_purchaseDate = d\<rparr>
      | (n, c, m, d) \<Rightarrow>
          Inl ((if n = None then [''name''] else []) @
               (if c then [] else [''companyName'']) @
               (if m = None then [''modelNumber''] else []) @
               (if d = None then [''purchaseDate''] else [])))"

text \<open>
  What becomes of \<open>data.companyName\<close>, which is a string, \<open>null\<close> or absent: stored
  under a String path, absent and \<open>null\<close> both end as \<open>null\<close>. \<open>x || null\<close> also turns
  the empty string, which is falsy, into \<open>null\<close>.
\<close>

definition as_stored :: "json \<Rightarrow> string option" where
  "as_stored v = (case v of JString s \<Rightarrow> Some s | _ \<Rightarrow> None)"

definition or_null :: "string option \<Rightarrow> string option" where
  "or_null x = (case x of Some s \<Rightarrow> (if s = [] then None else Some s) | None \<Rightarrow> None)"

text \<open>\<open>x || dflt\<close> on a text field: absent and empty are falsy.\<close>

definition or_default :: "string option \<Rightarrow> string \<Rightarrow> string" where
  "or_default x dflt = (case x of None \<Rightarrow> dflt | Some s \<Rightarrow> (if s = [] then dflt else s))"

subsection \<open>\<open>POST /appliance/add\<close>\<close>

text \<open>
  The text fields of the multipart body (\<open>None\<close>: the field was not sent). The routes
  below stand behind \<open>authMiddleware\<close>, which is not among the sources: \<open>uid\<close> is the
  \<open>req.userId\<close> it leaves for the authenticated caller.
\<close>

record add_body =
  field_name :: "string option"
  field_companyName :: "string option"
  field_modelNumber :: "string option"
  field_purchaseDate :: "string option"
  originalReceiptType :: "string option"
  insuranceReceiptType :: "string option"

definition text_field :: "string option \<Rightarrow> json" where
  "text_field x = (case x of None \<Rightarrow> JUndefined | Some s \<Rightarrow> JString s)"

text \<open>The template literal \<open>`${x}`\<close>: an absent field prints as \<open>undefined\<close>.\<close>

definition template :: "string option \<Rightarrow> string" where
  "template x = (case x of None \<Rightarrow> ''undefined'' | Some s \<Rightarrow> s)"

text \<open>
  The object built for a compressed upload: the base64 text of the compressed bytes
  with the content type, name and size of the file as uploaded.
\<close>

definition compressed_asset :: "('x) platform_scheme \<Rightarrow> file_part \<Rightarrow> bytes \<Rightarrow> asset" where
  "compressed_asset P file compressed =
     \<lparr>data = toBase64 P compressed, contentType = mimetype file,
      fileName = originalname file, fileSize = file_size file\<rparr>"

text \<open>
  The last step of the handler: \<open>Appliance.create\<close> and the answer. An exception is
  caught by the handler's \<open>catch\<close>, which answers 500.
\<close>

definition add_create ::
  "('x) platform_scheme \<Rightarrow> store \<Rightarrow> nat \<Rightarrow> nat \<Rightarrow> parsed \<Rightarrow> int \<Rightarrow> asset \<Rightarrow>
   (string \<times> asset) list \<Rightarrow> bytes list \<Rightarrow> outcome" where
  "add_create P st uid now d pdate productImageData rs calls =
     (case Appliance_create P st now uid (parsed_name d) (parsed_modelNumber d)
             (as_stored (parsed_companyName d)) pdate productImageData rs of
        Inl err \<Rightarrow> finish (respond 500 ''Error adding appliance'' NoPayload) st calls
      | Inr (a, st') \<Rightarrow>
          finish (respond 200 ''Appliance added successfully!'' (ApplianceDoc a)) st' calls)"

text \<open>
  The handler, in the order of the source: the original receipt must be there; the
  purchase date must parse; the schema must accept the body (it is given the ISO text
  of the date just parsed, which \<open>Date.parse\<close> accepts as it accepted the field, so the
  model hands it the field); the product image must be there; then the product image,
  the original receipt and, when sent, the insurance receipt are compressed one after
  the other; then the document is created with the date that was parsed.
\<close>

definition add_handler ::
  "('x) platform_scheme \<Rightarrow> store \<Rightarrow> nat \<Rightarrow> nat \<Rightarrow> add_body \<Rightarrow> file_part list \<Rightarrow> outcome" where
  "add_handler P st uid now body fs =
     (case files_of fs ''originalReceipt'' of
        None \<Rightarrow> finish (respond 400 ''Original receipt is required'' NoPayload) st []
      | Some originalFile \<Rightarrow>
     (case dateParse P (template (field_purchaseDate body)) of
        None \<Rightarrow>
          finish (respond 400 ''Invalid date format''
                    (Details (''Unable to parse date: '' @ template (field_purchaseDate body))))
            st []
      | Some pdate \<Rightarrow>
     (case applianceSchema P
             \<lparr>body_name = text_field (field_name body),
              body_companyName = text_field (field_companyName body),
              body_modelNumber = text_field (field_modelNumber body),
              body_purchaseDate = JString (template (field_purchaseDate body))\<rparr> of
        Inl issues \<Rightarrow> finish (respond 400 ''Invalid input data'' (FieldErrors issues)) st []
      | Inr d \<Rightarrow>
     (case files_of fs ''productImage'' of
        None \<Rightarrow> finish (respond 400 ''Product image is required'' NoPayload) st []
      | Some imageFile \<Rightarrow>
     (case compressBuffer P (buffer imageFile) of
        Inl err \<Rightarrow>
          finish (respond 500 ''Error adding appliance'' NoPayload) st [buffer imageFile]
      | Inr compressedProductImage \<Rightarrow>
     (case compressBuffer P (buffer originalFile) of
        Inl err \<Rightarrow>
          finish (respond 500 ''Error adding appliance'' NoPayload) st
            [buffer imageFile, buffer originalFile]
      | Inr compressedOriginalReceipt \<Rightarrow>
     (let productImageData = compressed_asset P imageFile compressedProductImage;
          originalReceiptData =
            (or_default (originalReceiptType body) ''Original Receipt'',
             compressed_asset P originalFile compressedOriginalReceipt)
      in case files_of fs ''insuranceReceipt'' of
           None \<Rightarrow>
             add_create P st uid now d pdate productImageData [originalReceiptData]
               [buffer imageFile, buffer originalFile]
         | Some insuranceFile \<Rightarrow>
             (case compressBuffer P (buffer insuranceFile) of
                Inl err \<Rightarrow>
                  finish (respond 500 ''Error adding appliance'' NoPayload) st
                    [buffer imageFile, buffer originalFile, buffer insuranceFile]
              | Inr compressedInsuranceReceipt \<Rightarrow>
                  add_create P st uid now d pdate productImageData
                    [originalReceiptData,
                     (or_default (insuranceReceiptType body) ''Insurance Receipt'',
                      compressed_asset P insuranceFile compressedInsuranceReceipt)]
                    [buffer imageFile, buffer originalFile,
                     buffer insuranceFile]))))))))"

text \<open>The route: \<open>upload.fields([...])\<close>, then the handler.\<close>

definition post_add ::
  "('x) platform_scheme \<Rightarrow> store \<Rightarrow> nat \<Rightarrow> nat \<Rightarrow> add_body \<Rightarrow> file_part list \<Rightarrow> outcome" where
  "post_add P st uid now body parts =
     (case upload_fields parts of
        Inl err \<Rightarrow> finish (errorMiddleware err) st []
      | Inr fs \<Rightarrow> add_handler P st uid now body fs)"

subsection \<open>\<open>PUT /appliance/:id\<close>\<close>

text \<open>
  The path parameter is \<open>None\<close> when it is not the text of an ObjectId: Mongoose then
  throws a \<open>CastError\<close>, as it does when the date string cannot be cast, and the
  handler's \<open>catch\<close> answers 500.
\<close>

definition put_appliance ::
  "('x) platform_scheme \<Rightarrow> store \<Rightarrow> nat \<Rightarrow> nat option \<Rightarrow> appliance_body \<Rightarrow> outcome" where
  "put_appliance P st uid idp body =
     (case applianceSchema P body of
        Inl issues \<Rightarrow> finish (respond 400 ''Invalid input data'' (FieldErrors issues)) st []
      | Inr d \<Rightarrow>
          (case (idp, castDate P (parsed_purchaseDate d)) of
             (Some i, Some pdate) \<Rightarrow>
               (case findByIdAndUpdate P st i (parsed_name d) (parsed_modelNumber d) pdate
                       (or_null (as_stored (parsed_companyName d))) of
                  None \<Rightarrow> finish (respond 404 ''Appliance not found'' NoPayload) st []
                | Some (updatedAppliance, st') \<Rightarrow>
                    finish (respond 200 ''Appliance updated successfully!''
                              (ApplianceDoc updatedAppliance)) st' [])
           | _ \<Rightarrow> finish (respond 500 ''Error fetching appliance'' NoPayload) st []))"

subsection \<open>\<open>GET /appliance/:id\<close>\<close>

definition get_appliance ::
  "('x) platform_scheme \<Rightarrow> store \<Rightarrow> nat \<Rightarrow> nat option \<Rightarrow> outcome" where
  "get_appliance P st uid idp =
     (case idp of
        None \<Rightarrow> finish (respond 500 ''Error fetching appliance'' NoPayload) st []
      | Some i \<Rightarrow>
          (case findById st i of
             None \<Rightarrow> finish (respond 404 ''Appliance not found'' NoPayload) st []
           | Some a \<Rightarrow>
               (case decompressBuffer P (fromBase64 P (data (productImage a))) of
                  Inl err \<Rightarrow> finish (respond 500 ''Error fetching appliance'' NoPayload) st []
                | Inr decompressedImage \<Rightarrow>
                    finish (respond 200 []
                              (ApplianceView
                                 \<lparr>view_id = appliance_id a, view_name = name a,
                                  view_modelNumber = modelNumber a,
                                  view_purchaseDate = purchaseDate a,
                                  view_companyName = or_null (companyName a),
                                  view_productImage =
                                    (productImage a)\<lparr>data := toBase64 P decompressedImage\<rparr>,
                                  view_receipts = receipts a\<rparr>)) st [])))"

subsection \<open>\<open>DELETE /appliance/:id\<close>\<close>

definition delete_appliance :: "store \<Rightarrow> nat \<Rightarrow> nat option \<Rightarrow> outcome" where
  "delete_appliance st uid idp =
     (case idp of
        None \<Rightarrow> finish (respond 500 ''Error deleting appliance'' NoPayload) st []
      | Some i \<Rightarrow>
          (case findOne st i uid of
             None \<Rightarrow> finish (respond 404 ''Appliance not found or unauthorized'' NoPayload) st []
           | Some a \<Rightarrow>
               finish (respond 200 ''Appliance deleted successfully'' NoPayload)
                 (findByIdAndDelete st i) []))"

subsection \<open>\<open>PUT /appliance/:id/receipt\<close>\<close>

text \<open>
  The handler stores the base64 text of \<open>req.file.buffer\<close> itself; it does not call
  \<open>compressBuffer\<close>.
\<close>

definition receipt_handler ::
  "('x) platform_scheme \<Rightarrow> store \<Rightarrow> nat \<Rightarrow> nat \<Rightarrow> nat option \<Rightarrow> string option \<Rightarrow>
   file_part list \<Rightarrow> outcome" where
  "receipt_handler P st uid now idp name_field fs =
     (case idp of
        None \<Rightarrow> finish (respond 500 ''Error adding receipt'' NoPayload) st []
      | Some i \<Rightarrow>
          (case findOne st i uid of
             None \<Rightarrow> finish (respond 404 ''Appliance not found or unauthorized'' NoPayload) st []
           | Some a \<Rightarrow>
               (case files_of fs ''originalReceipt'' of
                  None \<Rightarrow> finish (respond 400 ''Receipt file is required'' NoPayload) st []
                | Some file \<Rightarrow>
                    (let receiptData =
                           (or_default name_field ''Additional Receipt'',
                            \<lparr>data = toBase64 P (buffer file), contentType = mimetype file,
                             fileName = originalname file, fileSize = file_size file\<rparr>)
                     in case push_receipt_and_save P st now a receiptData of
                          Inl err \<Rightarrow>
                            finish (respond 500 ''Error adding receipt'' NoPayload) st []
                        | Inr (a', st') \<Rightarrow>
                            finish (respond 200 ''Receipt added successfully'' (ApplianceDoc a'))
                              st' []))))"

definition put_receipt ::
  "('x) platform_scheme \<Rightarrow> store \<Rightarrow> nat \<Rightarrow> nat \<Rightarrow> nat option \<Rightarrow> string option \<Rightarrow>
   file_part list \<Rightarrow> outcome" where
  "put_receipt P st uid now idp name_field parts =
     (case upload_single parts of
        Inl err \<Rightarrow> finish (errorMiddleware err) st []
      | Inr fs \<Rightarrow> receipt_handler P st uid now idp name_field fs)"

section \<open>Tokens: jsonwebtoken as routes/user.js calls it\<close>

text \<open>
  A token is its payload and the secret it was signed with (the signature checks
  exactly when the verifier holds the same secret). \<open>jwt.sign\<close> stamps \<open>iat\<close> with the
  current time in seconds and, only when \<open>expiresIn\<close> is given, \<open>exp = iat + span\<close>.
  \<open>jwt.verify\<close> throws \<open>JsonWebTokenError\<close> on a bad signature and
  \<open>TokenExpiredError\<close> when the payload has an \<open>exp\<close> and the clock has reached it.
\<close>

datatype span = Hours nat | Days nat

fun seconds :: "span \<Rightarrow> nat" where
  "seconds (Hours n) = n * 3600"
| "seconds (Days n) = n * 86400"

record jwt_payload =
  token_userId :: nat
  token_email :: "string option"
  token_name :: "string option"
  iat :: nat
  exp :: "nat option"

record token =
  claims :: jwt_payload
  signed_with :: string

datatype jwt_error = JsonWebTokenError | TokenExpiredError

definition jwt_sign ::
  "nat \<Rightarrow> string option \<Rightarrow> string option \<Rightarrow> string \<Rightarrow> span option \<Rightarrow> nat \<Rightarrow> token" where
  "jwt_sign uid email nm secret expiresIn now =
     \<lparr>claims = \<lparr>token_userId = uid, token_email = email, token_name = nm, iat = now,
                 exp = map_option (\<lambda>s. now + seconds s) expiresIn\<rparr>,
      signed_with = secret\<rparr>"

definition jwt_verify :: "token \<Rightarrow> string \<Rightarrow> nat \<Rightarrow> jwt_error + jwt_payload" where
  "jwt_verify t secret now =
     (if signed_with t \<noteq> secret then Inl JsonWebTokenError
      else (case exp (claims t) of
              None \<Rightarrow> Inr (claims t)
            | Some e \<Rightarrow> (if now \<ge> e then Inl TokenExpiredError else Inr (claims t))))"

text \<open>
  The three places that mint a token: \<open>POST /user/google\<close> (\<open>expiresIn: '7d'\<close>),
  \<open>POST /user/signup\<close> (\<open>expiresIn: '12h'\<close>) and \<open>POST /user/signin\<close> (no options).
\<close>

definition google_token :: "string \<Rightarrow> nat \<Rightarrow> string \<Rightarrow> string \<Rightarrow> nat \<Rightarrow> token" where
  "google_token JWT_SECRET uid email full_name now =
     jwt_sign uid (Some email) (Some full_name) JWT_SECRET (Some (Days 7)) now"

definition signup_token :: "string \<Rightarrow> nat \<Rightarrow> nat \<Rightarrow> token" where
  "signup_token JWT_SECRET uid now = jwt_sign uid None None JWT_SECRET (Some (Hours 12)) now"

definition signin_token :: "string \<Rightarrow> nat \<Rightarrow> nat \<Rightarrow> token" where
  "signin_token JWT_SECRET uid now = jwt_sign uid None None JWT_SECRET None now"

subsection \<open>\<open>GET /appliance/:id/receipt/:receiptId\<close>\<close>

text \<open>
  The download route verifies the token of the query string itself. An exception of
  \<open>jwt.verify\<close> is caught by the handler's \<open>catch\<close>, which answers 500. The receipt id is
  compared as text, so it cannot fail to cast.
\<close>

definition get_receipt ::
  "('x) platform_scheme \<Rightarrow> string \<Rightarrow> store \<Rightarrow> nat \<Rightarrow> token option \<Rightarrow> nat option \<Rightarrow> nat \<Rightarrow>
   outcome" where
  "get_receipt P JWT_SECRET st now query_token idp receiptId =
     (case query_token of
        None \<Rightarrow> finish (respond 401 ''No token provided'' NoPayload) st []
      | Some t \<Rightarrow>
          (case (jwt_verify t JWT_SECRET now, idp) of
             (Inr decoded, Some i) \<Rightarrow>
               (case findOne st i (token_userId decoded) of
                  None \<Rightarrow>
                    finish (respond 404 ''Appliance not found or unauthorized'' NoPayload) st []
                | Some a \<Rightarrow>
                    (case find (\<lambda>r. receipt_id r = receiptId) (receipts a) of
                       None \<Rightarrow> finish (respond 404 ''Receipt not found'' NoPayload) st []
                     | Some r \<Rightarrow>
                         (case decompressBuffer P (fromBase64 P (data r)) of
                            Inl err \<Rightarrow>
                              finish (respond 500 ''Error fetching receipt'' NoPayload) st []
                          | Inr decompressedBuffer \<Rightarrow>
                              finish (respond 200 []
                                        (RawFile (contentType r)
                                           (or_default (Some (fileName r)) ''receipt'')
                                           decompressedBuffer)) st [])))
           | _ \<Rightarrow> finish (respond 500 ''Error fetching receipt'' NoPayload) st []))"

section \<open>A reference platform for concrete runs\<close>

text \<open>
  Concrete runs need an instance of the platform. The reference zlib writes the gzip
  container of RFC 1952 (ten-byte header, deflate stream, CRC-32 and length, both
  little-endian) around stored deflate blocks of RFC 1951 (\<open>BTYPE = 00\<close>), and reads
  back exactly such streams with \<open>FLG = 0\<close>; it rejects everything else.
\<close>

definition crc_step :: "32 word \<Rightarrow> 32 word" where
  "crc_step c = (if bit c 0 then drop_bit 1 c XOR 0xEDB88320 else drop_bit 1 c)"

definition crc_byte :: "32 word \<Rightarrow> byte \<Rightarrow> 32 word" where
  "crc_byte c b =
     crc_step (crc_step (crc_step (crc_step (crc_step (crc_step (crc_step (crc_step
       (c XOR ucast b))))))))"

definition crc32 :: "bytes \<Rightarrow> 32 word" where
  "crc32 bs = NOT (foldl crc_byte (- 1) bs)"

definition le32 :: "32 word \<Rightarrow> bytes" where
  "le32 w = [ucast w, ucast (drop_bit 8 w), ucast (drop_bit 16 w), ucast (drop_bit 24 w)]"

definition le16 :: "nat \<Rightarrow> bytes" where
  "le16 n = [of_nat (n mod 256), of_nat (n div 256 mod 256)]"

definition gzip_header :: bytes where
  "gzip_header = [0x1f, 0x8b, 0x08, 0x00, 0x00, 0x00, 0x00, 0x00, 0x00, 0x03]"

function stored_blocks :: "bytes \<Rightarrow> bytes" where
  "stored_blocks bs =
     (if length bs \<le> 65535
      then 0x01 # le16 (length bs) @ le16 (65535 - length bs) @ bs
      else 0x00 # le16 65535 @ le16 0 @ take 65535 bs @ stored_blocks (drop 65535 bs))"
  by pat_completeness auto
termination
  by (relation "measure length") auto

declare stored_blocks.simps [simp del]

definition ref_gzip :: "bytes \<Rightarrow> error + bytes" where
  "ref_gzip bs =
     Inr (gzip_header @ stored_blocks bs @ le32 (crc32 bs) @ le32 (of_nat (length bs)))"

function inflate_stored :: "bytes \<Rightarrow> (bytes \<times> bytes) option" where
  "inflate_stored bs =
     (case bs of
        h # l0 # l1 # n0 # n1 # rest \<Rightarrow>
          (let len = unat l0 + 256 * unat l1; nlen = unat n0 + 256 * unat n1 in
           if h AND 0x06 \<noteq> 0 then None
           else if len + nlen \<noteq> 65535 then None
           else if length rest < len then None
           else if bit h 0 then Some (take len rest, drop len rest)
           else (case inflate_stored (drop len rest) of
                   None \<Rightarrow> None
                 | Some (out, trailer) \<Rightarrow> Some (take len rest @ out, trailer)))
      | _ \<Rightarrow> None)"
  by pat_completeness auto
termination
  by (relation "measure length") auto

declare inflate_stored.simps [simp del]

definition ref_gunzip :: "bytes \<Rightarrow> error + bytes" where
  "ref_gunzip bs =
     (case bs of
        i1 # i2 # cm # flg # m0 # m1 # m2 # m3 # xfl # os # rest \<Rightarrow>
          if i1 = 0x1f \<and> i2 = 0x8b \<and> cm = 0x08 \<and> flg = 0x00
          then (case inflate_stored rest of
                  None \<Rightarrow> Inl (Error ''invalid stored block lengths'')
                | Some (out, trailer) \<Rightarrow>
                    if trailer = le32 (crc32 out) @ le32 (of_nat (length out))
                    then Inr out
                    else Inl (Error ''incorrect data check''))
          else Inl (Error ''incorrect header check'')
      | _ \<Rightarrow> Inl (Error ''unexpected end of file''))"


text \<open>
  The reference base64 codec encodes with the alphabet of RFC 4648 and \<open>=\<close> padding.
  Decoding skips characters outside the alphabet and stops at the first \<open>=\<close>.
\<close>

definition b64_alphabet :: string where
  "b64_alphabet = ''ABCDEFGHIJKLMNOPQRSTUVWXYZabcdefghijklmnopqrstuvwxyz0123456789+/''"

fun b64_encode :: "bytes \<Rightarrow> string" where
  "b64_encode [] = []"
| "b64_encode [a] =
     (let n = unat a in
      [b64_alphabet ! (n div 4), b64_alphabet ! (n mod 4 * 16), CHR ''='', CHR ''=''])"
| "b64_encode [a, b] =
     (let n = unat a * 256 + unat b in
      [b64_alphabet ! (n div 1024), b64_alphabet ! (n div 16 mod 64),
       b64_alphabet ! (n mod 16 * 4), CHR ''=''])"
| "b64_encode (a # b # c # rest) =
     (let n = unat a * 65536 + unat b * 256 + unat c in
      [b64_alphabet ! (n div 262144), b64_alphabet ! (n div 4096 mod 64),
       b64_alphabet ! (n div 64 mod 64), b64_alphabet ! (n mod 64)]) @ b64_encode rest"

fun index_of :: "'a \<Rightarrow> 'a list \<Rightarrow> nat option" where
  "index_of x [] = None"
| "index_of x (y # ys) = (if x = y then Some 0 else map_option Suc (index_of x ys))"

fun b64_sextets :: "string \<Rightarrow> nat list" where
  "b64_sextets [] = []"
| "b64_sextets (c # cs) =
     (if c = CHR ''='' then []
      else (case index_of c b64_alphabet of
              None \<Rightarrow> b64_sextets cs
            | Some v \<Rightarrow> v # b64_sextets cs))"

fun b64_bytes :: "nat list \<Rightarrow> bytes" where
  "b64_bytes (a # b # c # d # rest) =
     (let n = ((a * 64 + b) * 64 + c) * 64 + d in
      [of_nat (n div 65536), of_nat (n div 256 mod 256), of_nat (n mod 256)]) @ b64_bytes rest"
| "b64_bytes [a, b, c] =
     (let n = (a * 64 + b) * 64 + c in [of_nat (n div 1024), of_nat (n div 4 mod 256)])"
| "b64_bytes [a, b] = [of_nat ((a * 64 + b) div 16)]"
| "b64_bytes _ = []"

definition b64_decode :: "string \<Rightarrow> bytes" where
  "b64_decode s = b64_bytes (b64_sextets s)"

text \<open>
  The reference date parser reads the calendar form \<open>YYYY-MM-DD\<close> and returns the
  milliseconds since the epoch of that day's UTC midnight; every other string is an
  invalid date.
\<close>

definition digit_of :: "char \<Rightarrow> nat option" where
  "digit_of c = index_of c ''0123456789''"

fun digits_of :: "string \<Rightarrow> nat option" where
  "digits_of [] = Some 0"
| "digits_of cs =
     (case (digits_of (butlast cs), digit_of (last cs)) of
        (Some n, Some d) \<Rightarrow> Some (10 * n + d)
      | _ \<Rightarrow> None)"

definition leap_year :: "nat \<Rightarrow> bool" where
  "leap_year y = (y mod 4 = 0 \<and> (y mod 100 \<noteq> 0 \<or> y mod 400 = 0))"

definition days_in_month :: "nat \<Rightarrow> nat \<Rightarrow> nat" where
  "days_in_month y m =
     (if m = 2 then (if leap_year y then 29 else 28)
      else if m = 4 \<or> m = 6 \<or> m = 9 \<or> m = 11 then 30 else 31)"

definition days_from_civil :: "nat \<Rightarrow> nat \<Rightarrow> nat \<Rightarrow> int" where
  "days_from_civil y m d =
     (let y' = (if m \<le> 2 then int y - 1 else int y);
          era = y' div 400;
          yoe = y' - era * 400;
          mp = (if m \<le> 2 then int m + 9 else int m - 3);
          doy = (153 * mp + 2) div 5 + int d - 1;
          doe = yoe * 365 + yoe div 4 - yoe div 100 + doy
      in era * 146097 + doe - 719468)"

definition ref_dateParse :: "string \<Rightarrow> int option" where
  "ref_dateParse s =
     (if length s = 10 \<and> s ! 4 = CHR ''-'' \<and> s ! 7 = CHR ''-''
      then (case (digits_of (take 4 s), digits_of (take 2 (drop 5 s)), digits_of (drop 8 s)) of
              (Some y, Some m, Some d) \<Rightarrow>
                if 1 \<le> m \<and> m \<le> 12 \<and> 1 \<le> d \<and> d \<le> days_in_month y m
                then Some (days_from_civil y m d * 86400000)
                else None
            | _ \<Rightarrow> None)
      else None)"

text \<open>
  The reference \<open>trim\<close> reads a string as UTF-8 and removes from both ends every
  character that ECMAScript counts as white space or as a line terminator: U+0009 to
  U+000D, U+0020, U+00A0, U+1680, U+2000 to U+200A, U+2028, U+2029, U+202F, U+205F,
  U+3000 and U+FEFF, each as its UTF-8 bytes. The second argument of \<open>strip\<close> bounds the
  number of characters removed; the string itself is always enough.
\<close>

definition js_white_space :: "string list" where
  "js_white_space =
     [[CHR 0x09], [CHR 0x0A], [CHR 0x0B], [CHR 0x0C], [CHR 0x0D], [CHR 0x20],
      [CHR 0xC2, CHR 0xA0],
      [CHR 0xE1, CHR 0x9A, CHR 0x80],
      [CHR 0xE2, CHR 0x80, CHR 0x80], [CHR 0xE2, CHR 0x80, CHR 0x81],
      [CHR 0xE2, CHR 0x80, CHR 0x82], [CHR 0xE2, CHR 0x80, CHR 0x83],
      [CHR 0xE2, CHR 0x80, CHR 0x84], [CHR 0xE2, CHR 0x80, CHR 0x85],
      [CHR 0xE2, CHR 0x80, CHR 0x86], [CHR 0xE2, CHR 0x80, CHR 0x87],
      [CHR 0xE2, CHR 0x80, CHR 0x88], [CHR 0xE2, CHR 0x80, CHR 0x89],
      [CHR 0xE2, CHR 0x80, CHR 0x8A],
      [CHR 0xE2, CHR 0x80, CHR 0xA8], [CHR 0xE2, CHR 0x80, CHR 0xA9],
      [CHR 0xE2, CHR 0x80, CHR 0xAF],
      [CHR 0xE2, CHR 0x81, CHR 0x9F],
      [CHR 0xE3, CHR 0x80, CHR 0x80],
      [CHR 0xEF, CHR 0xBB, CHR 0xBF]]"

fun strip :: "string list \<Rightarrow> string \<Rightarrow> string \<Rightarrow> string" where
  "strip ws [] s = s"
| "strip ws (c # bound) s =
     (case find (\<lambda>w. take (length w) s = w) ws of
        None \<Rightarrow> s
      | Some w \<Rightarrow> strip ws bound (drop (length w) s))"

definition trim_start :: "string \<Rightarrow> string" where
  "trim_start s = strip js_white_space s s"

definition ref_trim :: "string \<Rightarrow> string" where
  "ref_trim s = rev (strip (map rev js_white_space) s (rev (trim_start s)))"

definition ref_platform :: platform where
  "ref_platform =
     \<lparr>gzip = ref_gzip, gunzip = ref_gunzip,
      toBase64 = b64_encode, fromBase64 = b64_decode,
      dateParse = ref_dateParse, castDate = ref_dateParse, trim = ref_trim\<rparr>"

text \<open>A platform whose zlib cannot allocate: \<open>gzip\<close> fails on every input.\<close>

definition failing_platform :: platform where
  "failing_platform = ref_platform\<lparr>gzip := (\<lambda>b. Inl (Error ''Cannot allocate memory''))\<rparr>"

section \<open>Sample data for concrete runs\<close>

text \<open>
  A gzip stream that zlib reads and that \<open>compressBuffer\<close> does not write: the member
  holds one empty stored block, and its header names the operating system 255
  (unknown), which a reader ignores.
\<close>

definition foreign_stream :: bytes where
  "foreign_stream =
     [0x1f, 0x8b, 0x08, 0x00, 0x00, 0x00, 0x00, 0x00, 0x00, 0xff,
      0x01, 0x00, 0x00, 0xff, 0xff,
      0x00, 0x00, 0x00, 0x00, 0x00, 0x00, 0x00, 0x00]"

text \<open>
  A store with one appliance, owned by user 2. Its image and receipt were stored
  uncompressed (\<open>AQID\<close> is the base64 text of the bytes 1 2 3, \<open>BAUG\<close> of 4 5 6).
\<close>

definition sample_image :: asset where
  "sample_image =
     \<lparr>data = ''AQID'', contentType = ''image/png'', fileName = ''fridge.png'', fileSize = 3\<rparr>"

definition sample_receipt :: receipt where
  "sample_receipt =
     \<lparr>data = ''BAUG'', contentType = ''application/pdf'', fileName = ''bill.pdf'', fileSize = 3,
      receipt_id = 8, receipt_name = ''Original Receipt'', createdAt = 100\<rparr>"

definition fridge :: appliance where
  "fridge =
     \<lparr>appliance_id = 7, userId = 2, name = ''Fridge'', companyName = Some ''Acme'',
      modelNumber = ''F-100'', purchaseDate = 1577836800000,
      productImage = sample_image, receipts = [sample_receipt]\<rparr>"

definition sample_store :: store where
  "sample_store = \<lparr>docs = [fridge], fresh = 9\<rparr>"

text \<open>Two update bodies: one without \<open>companyName\<close>, one with \<open>name\<close> alone.\<close>

definition sample_update :: appliance_body where
  "sample_update =
     \<lparr>body_name = JString ''Freezer'', body_companyName = JUndefined,
      body_modelNumber = JString ''F-200'', body_purchaseDate = JString ''2021-03-04''\<rparr>"

definition name_only_update :: appliance_body where
  "name_only_update =
     \<lparr>body_name = JString ''Freezer'', body_companyName = JUndefined,
      body_modelNumber = JUndefined, body_purchaseDate = JUndefined\<rparr>"

text \<open>
  A company name in white space: a no-break space (U+00A0, the bytes \<open>c2 a0\<close>) in front
  and two spaces behind.
\<close>

definition spaced_name :: string where
  "spaced_name = CHR 0xC2 # CHR 0xA0 # ''Bosch  ''"

text \<open>The text fields and file parts of upload requests.\<close>

definition sample_body :: add_body where
  "sample_body =
     \<lparr>field_name = Some ''Fridge'', field_companyName = None,
      field_modelNumber = Some ''F-100'', field_purchaseDate = Some ''2020-01-01'',
      originalReceiptType = None, insuranceReceiptType = None\<rparr>"

definition image_part :: file_part where
  "image_part =
     \<lparr>fieldname = ''productImage'', originalname = ''fridge.png'', mimetype = ''image/png'',
      buffer = [1, 2, 3]\<rparr>"

definition receipt_part :: file_part where
  "receipt_part =
     \<lparr>fieldname = ''originalReceipt'', originalname = ''bill.pdf'',
      mimetype = ''application/pdf'', buffer = [4, 5, 6]\<rparr>"

definition big_part :: file_part where
  "big_part =
     \<lparr>fieldname = ''productImage'', originalname = ''big.png'', mimetype = ''image/png'',
      buffer = replicate (6 * 1024 * 1024) 0\<rparr>"

definition html_part :: file_part where
  "html_part =
     \<lparr>fieldname = ''file'', originalname = ''notes.pdf'', mimetype = ''text/html'',
      buffer = [1, 2, 3]\<rparr>"


definition gz_part :: file_part where
  "gz_part =
     \<lparr>fieldname = ''originalReceipt'', originalname = ''scan.pdf'',
      mimetype = ''application/pdf'', buffer = foreign_stream\<rparr>"

section \<open>The codec\<close>

lemmas ref_zlib_defs =
  ref_platform_def ref_gzip_def ref_gunzip_def gzip_header_def stored_blocks.simps
  inflate_stored.simps le16_def le32_def crc32_def crc_byte_def crc_step_def

lemmas ref_b64_defs = b64_decode_def b64_alphabet_def

lemmas ref_date_defs =
  ref_dateParse_def digit_of_def days_in_month_def days_from_civil_def leap_year_def

lemmas ref_trim_defs = ref_trim_def trim_start_def js_white_space_def

lemmas sample_defs =
  sample_store_def fridge_def sample_image_def sample_receipt_def

lemma ref_gzip_123:
  "gzip ref_platform [1, 2, 3] =
     Inr [0x1f, 0x8b, 8, 0, 0, 0, 0, 0, 0, 3, 1, 3, 0, 0xfc, 0xff, 1, 2, 3,
          0x1d, 0x80, 0xbc, 0x55, 3, 0, 0, 0]"
  by (simp add: ref_zlib_defs)

lemma ref_gunzip_123:
  "gunzip ref_platform
     [0x1f, 0x8b, 8, 0, 0, 0, 0, 0, 0, 3, 1, 3, 0, 0xfc, 0xff, 1, 2, 3,
      0x1d, 0x80, 0xbc, 0x55, 3, 0, 0, 0] = Inr [1, 2, 3]"
  by (simp add: ref_zlib_defs)

lemma ref_gunzip_corrupt:
  "gunzip ref_platform
     [0x1f, 0x8b, 8, 0, 0, 0, 0, 0, 0, 3, 1, 3, 0, 0xfc, 0xff, 1, 9, 3,
      0x1d, 0x80, 0xbc, 0x55, 3, 0, 0, 0] = Inl (Error ''incorrect data check'')"
  by (simp add: ref_zlib_defs)

lemma compress_ref_not_foreign: "compressBuffer ref_platform B' \<noteq> Inr foreign_stream"
  by (simp add: compressBuffer_def ref_platform_def ref_gzip_def gzip_header_def
      foreign_stream_def)

lemma decompress_foreign: "decompressBuffer ref_platform foreign_stream = Inr []"
  by (simp add: decompressBuffer_def foreign_stream_def ref_zlib_defs)

text \<open>
  The reference zlib keeps the contract of the library at every buffer: what it writes
  opens with the magic bytes, and it reads back what it wrote.
\<close>

lemma le16_unat:
  "n \<le> 65535 \<Longrightarrow>
   unat (of_nat (n mod 256) :: byte) + 256 * unat (of_nat (n div 256 mod 256) :: byte) = n"
  by (simp add: unat_of_nat)

lemma inflate_stored_blocks: "inflate_stored (stored_blocks bs @ tr) = Some (bs, tr)"
proof (induction bs rule: stored_blocks.induct)
  case (1 bs)
  show ?case
  proof (cases "length bs \<le> 65535")
    case True
    have sum: "65535 - length bs \<le> 65535" by simp
    show ?thesis
      using True le16_unat [OF True] le16_unat [OF sum]
      by (subst stored_blocks.simps, subst inflate_stored.simps)
        (simp add: le16_def Let_def)
  next
    case False
    have ih: "inflate_stored (stored_blocks (drop 65535 bs) @ tr) = Some (drop 65535 bs, tr)"
      using 1 False by simp
    have len: "min (length bs) 65535 = 65535"
      using False by simp
    show ?thesis
      using False
      by (subst stored_blocks.simps, subst inflate_stored.simps)
        (simp add: le16_def Let_def ih len)
  qed
qed

lemma ref_zlib_lawful:
  "gzip ref_platform B =
     Inr (gzip_header @ stored_blocks B @ le32 (crc32 B) @ le32 (of_nat (length B))) \<and>
   isGzipped (gzip_header @ stored_blocks B @ le32 (crc32 B) @ le32 (of_nat (length B))) \<and>
   gunzip ref_platform
     (gzip_header @ stored_blocks B @ le32 (crc32 B) @ le32 (of_nat (length B))) = Inr B"
  by (simp add: ref_platform_def ref_gzip_def ref_gunzip_def gzip_header_def
      inflate_stored_blocks)

text \<open>
  C4, codec round trip. Whenever zlib keeps its contract at a buffer \<open>B\<close> (\<open>gzip\<close>
  succeeds, its output opens with the magic bytes \<open>1f 8b\<close>, and \<open>gunzip\<close> gives \<open>B\<close>
  back), \<open>compressBuffer\<close> succeeds on \<open>B\<close> and \<open>decompressBuffer\<close> of its result is \<open>B\<close>.
\<close>

theorem codec_round_trip:
  assumes "gzip P B = Inr C" and "isGzipped C" and "gunzip P C = Inr B"
  shows "compressBuffer P B = Inr C \<and> decompressBuffer P C = Inr B"
  using assms by (simp add: compressBuffer_def decompressBuffer_def)

theorem codec_round_trip_witness:
  "compressBuffer ref_platform [1, 2, 3] =
     Inr [0x1f, 0x8b, 8, 0, 0, 0, 0, 0, 0, 3, 1, 3, 0, 0xfc, 0xff, 1, 2, 3,
          0x1d, 0x80, 0xbc, 0x55, 3, 0, 0, 0] \<and>
   decompressBuffer ref_platform
     [0x1f, 0x8b, 8, 0, 0, 0, 0, 0, 0, 3, 1, 3, 0, 0xfc, 0xff, 1, 2, 3,
      0x1d, 0x80, 0xbc, 0x55, 3, 0, 0, 0] = Inr [1, 2, 3]"
  by (rule codec_round_trip [OF ref_gzip_123 _ ref_gunzip_123]) simp

text \<open>
  C5, codec tolerance, as the code has it. A buffer whose first two bytes are not the
  magic bytes is returned unchanged. A buffer that opens with them is handed to
  \<open>gunzip\<close>, whoever wrote it: what \<open>gunzip\<close> returns is the result, and the buffer itself
  only when \<open>gunzip\<close> fails.
\<close>

theorem codec_tolerance:
  "(\<not> isGzipped B \<longrightarrow> decompressBuffer P B = Inr B) \<and>
   (isGzipped B \<longrightarrow>
      decompressBuffer P B = (case gunzip P B of Inr D \<Rightarrow> Inr D | Inl e \<Rightarrow> Inr B))"
  by (simp add: decompressBuffer_def split: sum.splits)

theorem codec_tolerance_witness:
  "\<not> isGzipped [0x25, 0x50, 0x44, 0x46] \<and>
   decompressBuffer ref_platform [0x25, 0x50, 0x44, 0x46] = Inr [0x25, 0x50, 0x44, 0x46] \<and>
   isGzipped foreign_stream \<and> decompressBuffer ref_platform foreign_stream = Inr []"
  using codec_tolerance [of "[0x25, 0x50, 0x44, 0x46]" ref_platform]
    codec_tolerance [of foreign_stream ref_platform]
  by (simp add: foreign_stream_def ref_zlib_defs)

text \<open>
  C5 as stated fails: \<open>foreign_stream\<close> is not an output of \<open>compressBuffer\<close>, and
  \<open>decompressBuffer\<close> does not return it unchanged but turns it into the empty buffer.
\<close>

theorem codec_tolerance_counterexample:
  "Inr foreign_stream \<notin> range (compressBuffer ref_platform) \<and>
   decompressBuffer ref_platform foreign_stream = Inr [] \<and>
   foreign_stream \<noteq> []"
proof -
  have "Inr foreign_stream \<notin> range (compressBuffer ref_platform)"
  proof
    assume "Inr foreign_stream \<in> range (compressBuffer ref_platform)"
    then obtain B' where "compressBuffer ref_platform B' = Inr foreign_stream"
      by (auto simp: image_iff)
    with compress_ref_not_foreign show False
      by blast
  qed
  moreover have "foreign_stream \<noteq> []"
    by (simp add: foreign_stream_def)
  ultimately show ?thesis
    by (simp add: decompress_foreign)
qed

text \<open>
  C6, codec swallow policy. When the buffer opens with the magic bytes and \<open>gunzip\<close>
  rejects it, \<open>decompressBuffer\<close> does not throw: it returns the buffer it was given.
\<close>

theorem codec_swallow:
  assumes "isGzipped B" and "gunzip P B = Inl e"
  shows "decompressBuffer P B = Inr B"
  using assms by (simp add: decompressBuffer_def)

theorem codec_swallow_witness:
  "decompressBuffer ref_platform
     [0x1f, 0x8b, 8, 0, 0, 0, 0, 0, 0, 3, 1, 3, 0, 0xfc, 0xff, 1, 9, 3,
      0x1d, 0x80, 0xbc, 0x55, 3, 0, 0, 0] =
   Inr [0x1f, 0x8b, 8, 0, 0, 0, 0, 0, 0, 3, 1, 3, 0, 0xfc, 0xff, 1, 9, 3,
      0x1d, 0x80, 0xbc, 0x55, 3, 0, 0, 0]"
  by (rule codec_swallow [OF _ ref_gunzip_corrupt]) simp

section \<open>The upload gates\<close>

lemma errorMiddleware_status: "status (errorMiddleware err) = 500"
  by (cases err) (simp add: errorMiddleware_def respond_def)

lemma multer_oversize:
  "p \<in> set parts \<Longrightarrow> originalname p \<noteq> [] \<Longrightarrow> file_size p > limit \<Longrightarrow>
   \<exists>err. multer flt limit left parts = Inl err"
proof (induction parts arbitrary: left)
  case Nil
  then show ?case by simp
next
  case (Cons q qs)
  show ?case
  proof (cases "q = p")
    case True
    with Cons.prems show ?thesis
      by (auto split: option.splits)
  next
    case False
    with Cons.prems have "p \<in> set qs" by simp
    from Cons.IH [OF this Cons.prems(2) Cons.prems(3)]
    show ?thesis
      by (auto split: option.splits sum.splits) (metis sum.distinct(1))
  qed
qed



text \<open>
  C7, size gate, as the code has it. A request of an authenticated caller to
  \<open>POST /appliance/add\<close> or \<open>PUT /appliance/:id/receipt\<close> that carries a file (a part
  with a file name) of more than 5 MiB is stopped by multer before the handler runs:
  the answer has status 500 (the error path, not a 400), the store is unchanged (no
  appliance created, no receipt appended) and \<open>compressBuffer\<close> was not called.
\<close>

theorem size_gate:
  assumes "p \<in> set parts" and "originalname p \<noteq> []" and "file_size p > 5 * 1024 * 1024"
  shows "status (reply (post_add P st uid now body parts)) = 500 \<and>
         db (post_add P st uid now body parts) = st \<and>
         compressCalls (post_add P st uid now body parts) = [] \<and>
         status (reply (put_receipt P st uid now idp nm parts)) = 500 \<and>
         db (put_receipt P st uid now idp nm parts) = st \<and>
         compressCalls (put_receipt P st uid now idp nm parts) = []"
proof -
  from assms have big: "file_size p > fileSizeLimit"
    by (simp add: fileSizeLimit_def)
  from multer_oversize [OF assms(1) assms(2) big]
  obtain e1 where e1: "upload_fields parts = Inl e1"
    unfolding upload_fields_def by blast
  from multer_oversize [OF assms(1) assms(2) big]
  obtain e2 where e2: "upload_single parts = Inl e2"
    unfolding upload_single_def by blast
  show ?thesis
    by (simp add: post_add_def put_receipt_def e1 e2 finish_def errorMiddleware_status)
qed

theorem size_gate_witness:
  "big_part \<in> set [big_part, receipt_part] \<and> originalname big_part \<noteq> [] \<and>
   file_size big_part > 5 * 1024 * 1024 \<and>
   status (reply (post_add ref_platform sample_store 2 500 sample_body
                    [big_part, receipt_part])) = 500 \<and>
   db (post_add ref_platform sample_store 2 500 sample_body [big_part, receipt_part])
     = sample_store"
proof -
  have a: "big_part \<in> set [big_part, receipt_part]" by simp
  have n: "originalname big_part \<noteq> []"
    by (simp add: big_part_def)
  have b: "file_size big_part > 5 * 1024 * 1024"
    by (simp add: big_part_def file_size_def)
  from size_gate [OF a n b] a n b show ?thesis by blast
qed

text \<open>
  C7 as stated fails: adding an appliance with a product image of 6 MiB is answered with
  status 500, not 400.
\<close>

theorem size_gate_counterexample:
  "file_size big_part = 6 * 1024 * 1024 \<and>
   status (reply (post_add ref_platform sample_store 2 500 sample_body
                    [big_part, receipt_part])) = 500"
  by (simp add: big_part_def file_size_def post_add_def upload_fields_def fileFilter_def
      allowedTypes_def fileSizeLimit_def finish_def errorMiddleware_def respond_def)



text \<open>
  The gate of \<open>POST /user/upload\<close> is the extension of the file name: a single file
  under the field \<open>file\<close>, of at most 5 MiB, is accepted exactly when its name ends in
  \<open>.jpg\<close>, \<open>.jpeg\<close>, \<open>.png\<close> or \<open>.pdf\<close>, whatever its declared content type; so a part
  declared as \<open>text/html\<close> and named \<open>notes.pdf\<close> is accepted there.
\<close>

lemma ends_with_iff: "ends_with e s \<longleftrightarrow> (\<exists>pre. s = pre @ e)"
proof
  assume "ends_with e s"
  then have "s = take (length s - length e) s @ e"
    by (metis append_take_drop_id ends_with_def)
  then show "\<exists>pre. s = pre @ e" ..
next
  assume "\<exists>pre. s = pre @ e"
  then show "ends_with e s"
    by (auto simp: ends_with_def)
qed

lemma user_upload_one:
  assumes "originalname p \<noteq> []" and "fieldname p = ''file''"
    and "file_size p \<le> 5 * 1024 * 1024"
  shows "reply (user_upload st [p]) =
           (if \<exists>e \<in> set [''.jpg'', ''.jpeg'', ''.png'', ''.pdf'']. \<exists>pre. originalname p = pre @ e
            then respond 200 ''File uploaded successfully'' (UploadedFile p)
            else respond 500 ''only image and PDFs allowed'' NoPayload)"
  using assms
  by (simp add: user_upload_def user_fileFilter_def ends_with_iff fileSizeLimit_def
      files_of_def finish_def errorMiddleware_def)

lemma user_upload_reads_name:
  "mimetype html_part \<notin> set allowedTypes \<and>
   reply (user_upload sample_store [html_part]) =
     respond 200 ''File uploaded successfully'' (UploadedFile html_part)"
  by (simp add: html_part_def allowedTypes_def user_upload_def user_fileFilter_def
      ends_with_def fileSizeLimit_def file_size_def files_of_def finish_def)

section \<open>Adding an appliance\<close>

lemma accepted_sample: "upload_fields [image_part, receipt_part] = Inr [image_part, receipt_part]"
  by (simp add: upload_fields_def image_part_def receipt_part_def fileFilter_def
      allowedTypes_def fileSizeLimit_def file_size_def)

lemma failing_compress:
  "compressBuffer failing_platform (buffer image_part) = Inl (Error ''Failed to compress file'')"
  by (simp add: compressBuffer_def failing_platform_def)

text \<open>
  What a successful add stores: the answer is 200 only when both required parts were
  there and were compressed, and then the new document is the last of the collection,
  belongs to the caller, and holds for the image and for the original receipt the base64
  text of the compressed bytes next to the byte length of the upload.
\<close>

lemma add_stores_compressed:
  assumes "upload_fields parts = Inr fs"
    and "status (reply (post_add P st uid now body parts)) = 200"
  shows "\<exists>img rcp ci cr a.
           files_of fs ''productImage'' = Some img \<and>
           files_of fs ''originalReceipt'' = Some rcp \<and>
           compressBuffer P (buffer img) = Inr ci \<and>
           compressBuffer P (buffer rcp) = Inr cr \<and>
           payload (reply (post_add P st uid now body parts)) = ApplianceDoc a \<and>
           docs (db (post_add P st uid now body parts)) = docs st @ [a] \<and>
           userId a = uid \<and>
           productImage a = compressed_asset P img ci \<and>
           fileSize (productImage a) = length (buffer img) \<and>
           data (productImage a) = toBase64 P ci \<and>
           data (hd (receipts a)) = toBase64 P cr \<and>
           fileSize (hd (receipts a)) = length (buffer rcp)"
  using assms
  by (auto simp: post_add_def add_handler_def add_create_def Appliance_create_def finish_def
      respond_def Let_def compressed_asset_def file_size_def embed_receipt_def
      split: option.splits sum.splits if_splits)

lemma stored_image_restores:
  assumes "gzip P B = Inr C" and "isGzipped C" and "gunzip P C = Inr B"
    and "fromBase64 P (toBase64 P C) = C"
  shows "compressBuffer P B = Inr C \<and>
         decompressBuffer P (fromBase64 P (data (compressed_asset P file C))) = Inr B"
  using assms by (simp add: compressBuffer_def decompressBuffer_def compressed_asset_def)

text \<open>
  C8, add-appliance atomicity. When \<open>compressBuffer\<close> fails on the product image or on
  the original receipt of an add-appliance request, the request is answered with an
  error status and the store is the store from before: no appliance was inserted.
\<close>

theorem add_atomic:
  assumes "upload_fields parts = Inr fs"
    and "(files_of fs ''productImage'' = Some f \<and> compressBuffer P (buffer f) = Inl e) \<or>
         (files_of fs ''originalReceipt'' = Some f \<and> compressBuffer P (buffer f) = Inl e)"
  shows "db (post_add P st uid now body parts) = st \<and>
         (status (reply (post_add P st uid now body parts)) = 400 \<or>
          status (reply (post_add P st uid now body parts)) = 500)"
  using assms
  by (auto simp: post_add_def add_handler_def finish_def respond_def
      split: option.splits sum.splits)

theorem add_atomic_witness:
  "upload_fields [image_part, receipt_part] = Inr [image_part, receipt_part] \<and>
   files_of [image_part, receipt_part] ''productImage'' = Some image_part \<and>
   compressBuffer failing_platform (buffer image_part) = Inl (Error ''Failed to compress file'') \<and>
   db (post_add failing_platform sample_store 2 500 sample_body [image_part, receipt_part])
     = sample_store \<and>
   status (reply (post_add failing_platform sample_store 2 500 sample_body
                    [image_part, receipt_part])) = 500"
proof -
  have f: "files_of [image_part, receipt_part] ''productImage'' = Some image_part"
    by (simp add: files_of_def image_part_def)
  have r: "files_of [image_part, receipt_part] ''originalReceipt'' = Some receipt_part"
    by (simp add: files_of_def image_part_def receipt_part_def)
  have d: "dateParse failing_platform ''2020-01-01'' = Some 1577836800000"
    by (simp add: failing_platform_def ref_platform_def ref_date_defs)
  have not400:
    "status (reply (post_add failing_platform sample_store 2 500 sample_body
                      [image_part, receipt_part])) \<noteq> 400"
    by (simp add: post_add_def accepted_sample add_handler_def f r d sample_body_def
        template_def text_field_def applianceSchema_def string_min1_def
        string_nullable_optional_def date_string_def failing_compress finish_def respond_def)
  from add_atomic [OF accepted_sample, where f = image_part and P = failing_platform
      and e = "Error ''Failed to compress file''" and st = sample_store and uid = 2
      and now = 500 and body = sample_body] f failing_compress
  have "db (post_add failing_platform sample_store 2 500 sample_body
              [image_part, receipt_part]) = sample_store \<and>
        (status (reply (post_add failing_platform sample_store 2 500 sample_body
              [image_part, receipt_part])) = 400 \<or>
         status (reply (post_add failing_platform sample_store 2 500 sample_body
              [image_part, receipt_part])) = 500)"
    by blast
  with not400 f accepted_sample failing_compress show ?thesis
    by blast
qed

section \<open>Appending a receipt\<close>

lemma accepted_gz: "upload_single [gz_part] = Inr [gz_part]"
  by (simp add: upload_single_def gz_part_def fileFilter_def allowedTypes_def
      fileSizeLimit_def file_size_def foreign_stream_def)

lemma b64_foreign: "b64_encode foreign_stream = ''H4sIAAAAAAAA/wEAAP//AAAAAAAAAAA=''"
  by (simp add: foreign_stream_def b64_alphabet_def)

lemma b64_foreign_back: "b64_decode ''H4sIAAAAAAAA/wEAAP//AAAAAAAAAAA='' = foreign_stream"
  by (simp add: foreign_stream_def ref_b64_defs)

text \<open>
  C2, stored-asset invariant: the code breaks it in \<open>PUT /appliance/:id/receipt\<close>. The
  owner appends a receipt whose bytes are a gzip stream of 23 bytes. No call of
  \<open>compressBuffer\<close> is made; the stored text decodes to the uploaded bytes themselves,
  \<open>fileSize\<close> is 23, and \<open>decompressBuffer\<close> of the decoded text is the empty buffer.
\<close>

theorem appended_receipt_not_compressed:
  "file_size gz_part = 23 \<and>
   status (reply (put_receipt ref_platform sample_store 2 500 (Some 7) None [gz_part])) = 200 \<and>
   map (\<lambda>a. map (\<lambda>r. (fileSize r, fromBase64 ref_platform (data r),
                        decompressBuffer ref_platform (fromBase64 ref_platform (data r))))
               (receipts a))
     (docs (db (put_receipt ref_platform sample_store 2 500 (Some 7) None [gz_part]))) =
     [[(3, [4, 5, 6], Inr [4, 5, 6]), (23, foreign_stream, Inr [])]] \<and>
   compressCalls (put_receipt ref_platform sample_store 2 500 (Some 7) None [gz_part]) = []"
proof -
  have enc: "toBase64 ref_platform (buffer gz_part) = ''H4sIAAAAAAAA/wEAAP//AAAAAAAAAAA=''"
    by (simp add: ref_platform_def gz_part_def b64_foreign)
  have dec: "fromBase64 ref_platform ''H4sIAAAAAAAA/wEAAP//AAAAAAAAAAA='' = foreign_stream"
    by (simp add: ref_platform_def b64_foreign_back)
  have dec2: "fromBase64 ref_platform ''BAUG'' = [4, 5, 6]"
    by (simp add: ref_platform_def ref_b64_defs)
  have plain: "decompressBuffer ref_platform [4, 5, 6] = Inr [4, 5, 6]"
    by (simp add: decompressBuffer_def)
  have sz: "file_size gz_part = 23"
    by (simp add: file_size_def gz_part_def foreign_stream_def)
  have meta: "mimetype gz_part = ''application/pdf''" "originalname gz_part = ''scan.pdf''"
    "fieldname gz_part = ''originalReceipt''"
    by (simp_all add: gz_part_def)
  have nm: "trim ref_platform ''Additional Receipt'' = ''Additional Receipt''"
    by (simp add: ref_platform_def ref_trim_defs)
  show ?thesis
    by (simp add: put_receipt_def accepted_gz receipt_handler_def findOne_def sample_defs
        files_of_def meta enc dec dec2 plain sz decompress_foreign push_receipt_and_save_def
        embed_receipt_def valid_receipt_def valid_asset_def maxFileSize_def or_default_def
        nm finish_def respond_def Let_def)
qed

section \<open>Reading, updating and deleting one appliance\<close>

text \<open>
  \<open>DELETE /appliance/:id\<close> and the receipt handler look the document up by id and
  owner: when the caller owns no appliance with that id they answer 404 and the store
  stays as it is.
\<close>

lemma owner_scoped:
  assumes "findOne st i uid = None"
  shows "reply (delete_appliance st uid (Some i)) =
           respond 404 ''Appliance not found or unauthorized'' NoPayload \<and>
         db (delete_appliance st uid (Some i)) = st \<and>
         reply (receipt_handler P st uid now (Some i) nm fs) =
           respond 404 ''Appliance not found or unauthorized'' NoPayload \<and>
         db (receipt_handler P st uid now (Some i) nm fs) = st"
  using assms by (simp add: delete_appliance_def receipt_handler_def finish_def)

lemma sample_lookup: "findById sample_store 7 = Some fridge"
  by (simp add: findById_def sample_store_def fridge_def)

text \<open>
  C1, ownership isolation: the code breaks it in \<open>GET /appliance/:id\<close> and
  \<open>PUT /appliance/:id\<close>. The appliance with id 7 belongs to user 2. User 1 reads it (status
  200, the whole appliance in the answer) and updates it (status 200, the stored name
  changes); only the delete of user 1 is answered 404 and leaves the store as it was.
\<close>

theorem ownership_isolation_fails:
  "userId fridge = 2 \<and> findById sample_store 7 = Some fridge \<and>
   reply (get_appliance ref_platform sample_store 1 (Some 7)) =
     respond 200 []
       (ApplianceView
          \<lparr>view_id = 7, view_name = ''Fridge'', view_modelNumber = ''F-100'',
           view_purchaseDate = 1577836800000, view_companyName = Some ''Acme'',
           view_productImage = sample_image, view_receipts = [sample_receipt]\<rparr>) \<and>
   status (reply (put_appliance ref_platform sample_store 1 (Some 7) sample_update)) = 200 \<and>
   map name (docs (db (put_appliance ref_platform sample_store 1 (Some 7) sample_update)))
     = [''Freezer''] \<and>
   status (reply (delete_appliance sample_store 1 (Some 7))) = 404 \<and>
   db (delete_appliance sample_store 1 (Some 7)) = sample_store"
  by (simp add: sample_defs get_appliance_def put_appliance_def delete_appliance_def
      findById_def findOne_def findByIdAndUpdate_def finish_def respond_def
      decompressBuffer_def ref_platform_def b64_decode_def b64_alphabet_def
      applianceSchema_def sample_update_def string_min1_def string_nullable_optional_def
      date_string_def or_null_def as_stored_def ref_date_defs ref_trim_defs Let_def)

lemma find_replace_same:
  "find (\<lambda>a. appliance_id a = i) ds = Some a \<Longrightarrow> appliance_id a' = i \<Longrightarrow>
   find (\<lambda>a. appliance_id a = i) (replace_doc i a' ds) = Some a'"
  by (induction ds) (auto split: if_splits)

lemma find_replace_other:
  "j \<noteq> i \<Longrightarrow> appliance_id a' = i \<Longrightarrow>
   find (\<lambda>a. appliance_id a = j) (replace_doc i a' ds) = find (\<lambda>a. appliance_id a = j) ds"
  by (induction ds) auto

lemma findById_id: "findById st i = Some a \<Longrightarrow> appliance_id a = i"
  by (auto simp: findById_def dest: find_Some_iff [THEN iffD1])

lemma schema_accepts:
  "applianceSchema P body = Inr d \<Longrightarrow>
   body_name body = JString (parsed_name d) \<and> parsed_name d \<noteq> [] \<and>
   body_modelNumber body = JString (parsed_modelNumber d) \<and> parsed_modelNumber d \<noteq> [] \<and>
   body_purchaseDate body = JString (parsed_purchaseDate d) \<and>
   dateParse P (parsed_purchaseDate d) \<noteq> None \<and>
   parsed_companyName d = body_companyName body \<and> body_companyName body \<noteq> JOther"
  by (auto simp: applianceSchema_def string_min1_def date_string_def
      string_nullable_optional_def split: option.splits json.splits if_splits bool.splits)

lemma sample_schema:
  "applianceSchema ref_platform sample_update =
     Inr \<lparr>parsed_name = ''Freezer'', parsed_companyName = JUndefined,
          parsed_modelNumber = ''F-200'', parsed_purchaseDate = ''2021-03-04''\<rparr>"
  by (simp add: applianceSchema_def sample_update_def string_min1_def
      string_nullable_optional_def date_string_def ref_platform_def ref_date_defs)

lemma sample_update_fields:
  "body_name sample_update = JString ''Freezer''"
  "body_modelNumber sample_update = JString ''F-200''"
  "body_purchaseDate sample_update = JString ''2021-03-04''"
  "body_companyName sample_update = JUndefined"
  by (simp_all add: sample_update_def)

lemma sample_cast: "castDate ref_platform ''2021-03-04'' = Some 1614816000000"
  by (simp add: ref_platform_def ref_date_defs)

text \<open>
  C3, update, as the code has it. For the appliance with the id of the request: a body
  whose \<open>name\<close>, \<open>modelNumber\<close> or \<open>purchaseDate\<close> is not a string, whose \<open>name\<close> or
  \<open>modelNumber\<close> is empty, whose date does not parse or whose \<open>companyName\<close> is neither a
  string nor \<open>null\<close> nor absent is answered 400 and the store is unchanged. On any other
  body whose date casts, \<open>name\<close> and \<open>modelNumber\<close> are overwritten with the trimmed
  strings of the body, \<open>purchaseDate\<close> with the date cast, and \<open>companyName\<close> with the
  trimmed string of the body, or with \<open>null\<close> when the body has none, \<open>null\<close> or the empty
  string; the id, the owner, the product image and the receipts are as before, and so
  is every other appliance.
\<close>

theorem update_overwrites:
  assumes "findById st i = Some a"
  shows
    "(case (body_name body, body_modelNumber body, body_purchaseDate body) of
        (JString n, JString m, JString d) \<Rightarrow>
          (if n = [] \<or> m = [] \<or> dateParse P d = None \<or> body_companyName body = JOther
           then status (reply (put_appliance P st uid (Some i) body)) = 400 \<and>
                message (reply (put_appliance P st uid (Some i) body)) = ''Invalid input data'' \<and>
                db (put_appliance P st uid (Some i) body) = st
           else (case castDate P d of
                   None \<Rightarrow>
                     status (reply (put_appliance P st uid (Some i) body)) = 500 \<and>
                     db (put_appliance P st uid (Some i) body) = st
                 | Some t \<Rightarrow>
                     (let a' = a\<lparr>name := trim P n, modelNumber := trim P m, purchaseDate := t,
                                 companyName :=
                                   (case body_companyName body of
                                      JString c \<Rightarrow> (if c = [] then None else Some (trim P c))
                                    | _ \<Rightarrow> None)\<rparr>
                      in reply (put_appliance P st uid (Some i) body) =
                           respond 200 ''Appliance updated successfully!'' (ApplianceDoc a') \<and>
                         findById (db (put_appliance P st uid (Some i) body)) i = Some a' \<and>
                         (\<forall>j. j \<noteq> i \<longrightarrow>
                            findById (db (put_appliance P st uid (Some i) body)) j =
                              findById st j) \<and>
                         appliance_id a' = appliance_id a \<and> userId a' = userId a \<and>
                         productImage a' = productImage a \<and> receipts a' = receipts a)))
      | _ \<Rightarrow>
          status (reply (put_appliance P st uid (Some i) body)) = 400 \<and>
          message (reply (put_appliance P st uid (Some i) body)) = ''Invalid input data'' \<and>
          db (put_appliance P st uid (Some i) body) = st)"
proof -
  have idi: "appliance_id a = i"
    using assms by (rule findById_id)
  from assms have fnd: "find (\<lambda>a. appliance_id a = i) (docs st) = Some a"
    by (simp add: findById_def)
  have rejected:
    "applianceSchema P body = Inl issues \<Longrightarrow>
     status (reply (put_appliance P st uid (Some i) body)) = 400 \<and>
     message (reply (put_appliance P st uid (Some i) body)) = ''Invalid input data'' \<and>
     db (put_appliance P st uid (Some i) body) = st" for issues
    by (simp add: put_appliance_def finish_def respond_def)
  show ?thesis
  proof (cases "applianceSchema P body")
    case (Inl issues)
    from rejected [OF Inl] Inl show ?thesis
      by (auto simp: applianceSchema_def string_min1_def date_string_def
          string_nullable_optional_def
          split: json.splits option.splits if_splits bool.splits prod.splits)
  next
    case (Inr d)
    from schema_accepts [OF Inr] obtain y where acc:
      "body_name body = JString (parsed_name d)" "parsed_name d \<noteq> []"
      "body_modelNumber body = JString (parsed_modelNumber d)" "parsed_modelNumber d \<noteq> []"
      "body_purchaseDate body = JString (parsed_purchaseDate d)"
      "dateParse P (parsed_purchaseDate d) = Some y"
      "parsed_companyName d = body_companyName body" "body_companyName body \<noteq> JOther"
      by auto
    show ?thesis
    proof (cases "castDate P (parsed_purchaseDate d)")
      case None
      with Inr acc show ?thesis
        by (simp add: put_appliance_def finish_def respond_def)
    next
      case (Some t)
      have company:
        "map_option (trim P) (or_null (as_stored (body_companyName body))) =
           (case body_companyName body of
              JString c \<Rightarrow> (if c = [] then None else Some (trim P c))
            | _ \<Rightarrow> None)"
        by (simp add: or_null_def as_stored_def split: json.splits)
      show ?thesis
        using Inr acc Some assms idi
        by (simp add: put_appliance_def finish_def findByIdAndUpdate_def Let_def findById_def
            find_replace_same [OF fnd] find_replace_other company)
    qed
  qed
qed

text \<open>
  Three updates of the sample appliance by its owner: without \<open>companyName\<close>, with the
  empty string, and with a name in white space (a no-break space in front, two spaces
  behind).
\<close>

theorem update_overwrites_witness:
  "findById sample_store 7 = Some fridge \<and>
   reply (put_appliance ref_platform sample_store 2 (Some 7) sample_update) =
     respond 200 ''Appliance updated successfully!''
       (ApplianceDoc (fridge\<lparr>name := ''Freezer'', modelNumber := ''F-200'',
                              purchaseDate := 1614816000000, companyName := None\<rparr>)) \<and>
   findById (db (put_appliance ref_platform sample_store 2 (Some 7) sample_update)) 7 =
     Some (fridge\<lparr>name := ''Freezer'', modelNumber := ''F-200'',
                   purchaseDate := 1614816000000, companyName := None\<rparr>) \<and>
   findById (db (put_appliance ref_platform sample_store 2 (Some 7) sample_update)) 8 =
     findById sample_store 8 \<and>
   findById (db (put_appliance ref_platform sample_store 2 (Some 7)
                   (sample_update\<lparr>body_companyName := JString []\<rparr>))) 7 =
     Some (fridge\<lparr>name := ''Freezer'', modelNumber := ''F-200'',
                   purchaseDate := 1614816000000, companyName := None\<rparr>) \<and>
   findById (db (put_appliance ref_platform sample_store 2 (Some 7)
                   (sample_update\<lparr>body_companyName := JString spaced_name\<rparr>))) 7 =
     Some (fridge\<lparr>name := ''Freezer'', modelNumber := ''F-200'',
                   purchaseDate := 1614816000000, companyName := Some ''Bosch''\<rparr>)"
proof -
  have trims: "trim ref_platform ''Freezer'' = ''Freezer''"
    "trim ref_platform ''F-200'' = ''F-200''"
    "trim ref_platform spaced_name = ''Bosch''"
    by (simp_all add: ref_platform_def ref_trim_defs spaced_name_def)
  have parses: "dateParse ref_platform ''2021-03-04'' \<noteq> None"
    by (simp add: ref_platform_def ref_date_defs)
  have nonempty: "spaced_name \<noteq> []"
    by (simp add: spaced_name_def)
  have u1: "findById sample_store 7 = Some fridge \<and>
     reply (put_appliance ref_platform sample_store 2 (Some 7) sample_update) =
       respond 200 ''Appliance updated successfully!''
         (ApplianceDoc (fridge\<lparr>name := ''Freezer'', modelNumber := ''F-200'',
                                purchaseDate := 1614816000000, companyName := None\<rparr>)) \<and>
     findById (db (put_appliance ref_platform sample_store 2 (Some 7) sample_update)) 7 =
       Some (fridge\<lparr>name := ''Freezer'', modelNumber := ''F-200'',
                     purchaseDate := 1614816000000, companyName := None\<rparr>) \<and>
     findById (db (put_appliance ref_platform sample_store 2 (Some 7) sample_update)) 8 =
       findById sample_store 8"
    using update_overwrites [OF sample_lookup, where P = ref_platform
        and body = sample_update and uid = 2]
    by (simp add: sample_update_fields parses sample_cast sample_lookup Let_def trims)
  have u2: "findById (db (put_appliance ref_platform sample_store 2 (Some 7)
                   (sample_update\<lparr>body_companyName := JString []\<rparr>))) 7 =
     Some (fridge\<lparr>name := ''Freezer'', modelNumber := ''F-200'',
                   purchaseDate := 1614816000000, companyName := None\<rparr>)"
    using update_overwrites [OF sample_lookup, where P = ref_platform
        and body = "sample_update\<lparr>body_companyName := JString []\<rparr>" and uid = 2]
    by (simp add: sample_update_fields parses sample_cast Let_def trims)
  have u3: "findById (db (put_appliance ref_platform sample_store 2 (Some 7)
                   (sample_update\<lparr>body_companyName := JString spaced_name\<rparr>))) 7 =
     Some (fridge\<lparr>name := ''Freezer'', modelNumber := ''F-200'',
                   purchaseDate := 1614816000000, companyName := Some ''Bosch''\<rparr>)"
    using update_overwrites [OF sample_lookup, where P = ref_platform
        and body = "sample_update\<lparr>body_companyName := JString spaced_name\<rparr>" and uid = 2]
    by (simp add: sample_update_fields parses sample_cast Let_def trims nonempty)
  from u1 u2 u3 show ?thesis by simp
qed

text \<open>
  C3 as stated fails: an update without \<open>companyName\<close> succeeds and resets the stored
  company name from \<open>Acme\<close> to \<open>null\<close>, and an update with \<open>name\<close> alone is rejected.
\<close>

theorem update_overwrites_counterexample:
  "body_companyName sample_update = JUndefined \<and>
   map companyName (docs sample_store) = [Some ''Acme''] \<and>
   status (reply (put_appliance ref_platform sample_store 2 (Some 7) sample_update)) = 200 \<and>
   map companyName (docs (db (put_appliance ref_platform sample_store 2 (Some 7) sample_update)))
     = [None] \<and>
   body_modelNumber name_only_update = JUndefined \<and>
   reply (put_appliance ref_platform sample_store 2 (Some 7) name_only_update) =
     respond 400 ''Invalid input data'' (FieldErrors [''modelNumber'', ''purchaseDate''])"
  by (simp add: sample_defs put_appliance_def
      findById_def findByIdAndUpdate_def finish_def respond_def ref_platform_def
      applianceSchema_def sample_update_def name_only_update_def string_min1_def
      string_nullable_optional_def
      date_string_def or_null_def as_stored_def ref_date_defs ref_trim_defs Let_def)

section \<open>Token lifetimes\<close>

text \<open>
  C10, token lifetimes. A token minted by \<open>POST /user/signin\<close> has no \<open>exp\<close>, and its
  verification with the signing secret succeeds at every time \<open>t\<close>. A signup token
  verifies before twelve hours have passed since it was minted and fails with
  \<open>TokenExpiredError\<close> from then on; a token of the Google login does so at seven days.
\<close>

theorem token_lifetimes:
  "exp (claims (signin_token s uid t0)) = None \<and>
   jwt_verify (signin_token s uid t0) s t = Inr (claims (signin_token s uid t0)) \<and>
   jwt_verify (signup_token s uid t0) s t =
     (if t < t0 + 12 * 60 * 60 then Inr (claims (signup_token s uid t0))
      else Inl TokenExpiredError) \<and>
   jwt_verify (google_token s uid email nm t0) s t =
     (if t < t0 + 7 * 24 * 60 * 60 then Inr (claims (google_token s uid email nm t0))
      else Inl TokenExpiredError)"
  by (simp add: signin_token_def signup_token_def google_token_def jwt_sign_def jwt_verify_def)

end
